theory Spec2Isabelle
  imports Main "HOL-Library.AList" "HOL-Library.Sublist"
begin

section \<open>Text and the Unicode tables\<close>

text \<open>
  A Python string is the list of its code points. The operations of the source that
  consult the Unicode character database (\<^verbatim>\<open>str.strip\<close>, \<^verbatim>\<open>str.split\<close>, \<^verbatim>\<open>str.upper\<close>,
  \<^verbatim>\<open>str.lower\<close>, the classes \<^verbatim>\<open>\w\<close> and \<^verbatim>\<open>\b\<close> and the flag \<^verbatim>\<open>re.IGNORECASE\<close> of the
  regular expressions, \<^verbatim>\<open>int\<close> and \<^verbatim>\<open>str.isdigit\<close>) take the tables as a parameter:
  whether a code point is whitespace, whether it is a word character, its upper-case
  mapping (one to three code points), the lower-casing of a whole string (which
  depends on the context of a letter), whether a text character matches a pattern
  character when case is ignored, and the value of a decimal digit.
\<close>

type_synonym pystr = "nat list"

definition lit :: "string \<Rightarrow> pystr" where
  "lit s = map (of_char :: char \<Rightarrow> nat) s"

record unicode =
  u_isspace :: "nat \<Rightarrow> bool"
  u_isword :: "nat \<Rightarrow> bool"
  u_upper :: "nat \<Rightarrow> pystr"
  u_lower :: "pystr \<Rightarrow> pystr"
  u_ci_match :: "nat \<Rightarrow> nat \<Rightarrow> bool"
  u_decimal :: "nat \<Rightarrow> nat option"
  u_isdigit :: "nat \<Rightarrow> bool"

text \<open>What the tables say on ASCII.\<close>

definition ascii_isspace :: "nat \<Rightarrow> bool" where
  "ascii_isspace c = ((9 \<le> c \<and> c \<le> 13) \<or> (28 \<le> c \<and> c \<le> 32))"

definition ascii_isalpha :: "nat \<Rightarrow> bool" where
  "ascii_isalpha c = ((65 \<le> c \<and> c \<le> 90) \<or> (97 \<le> c \<and> c \<le> 122))"

definition ascii_decimal :: "nat \<Rightarrow> nat option" where
  "ascii_decimal c = (if 48 \<le> c \<and> c \<le> 57 then Some (c - 48) else None)"

definition ascii_isword :: "nat \<Rightarrow> bool" where
  "ascii_isword c = (ascii_isalpha c \<or> (48 \<le> c \<and> c \<le> 57) \<or> c = 95)"

definition ascii_upper :: "nat \<Rightarrow> nat" where
  "ascii_upper c = (if 97 \<le> c \<and> c \<le> 122 then c - 32 else c)"

definition ascii_lower :: "nat \<Rightarrow> nat" where
  "ascii_lower c = (if 65 \<le> c \<and> c \<le> 90 then c + 32 else c)"

text \<open>
  The tables agree with Python on ASCII: this is all the theorems below ask of them
  where they ask anything. A pattern character that is not a letter is matched by
  itself only; an ASCII letter is matched by an ASCII character exactly when the two
  are the same letter (what else matches it is left to the tables).
\<close>

definition ascii_conform :: "unicode \<Rightarrow> bool" where
  "ascii_conform U =
     ((\<forall>c<128. u_isspace U c = ascii_isspace c \<and> u_isword U c = ascii_isword c \<and>
               u_upper U c = [ascii_upper c] \<and> u_decimal U c = ascii_decimal c \<and>
               u_isdigit U c = (ascii_decimal c \<noteq> None)) \<and>
      (\<forall>s. list_all (\<lambda>c. c < 128) s \<longrightarrow> u_lower U s = map ascii_lower s) \<and>
      (\<forall>p<128. \<forall>c. if ascii_isalpha p
                     then c < 128 \<longrightarrow> u_ci_match U p c = (ascii_lower c = ascii_lower p)
                     else u_ci_match U p c = (c = p)))"

text \<open>
  The tables cut down to ASCII, for the concrete scenarios (whose texts are ASCII): a
  code point outside ASCII is neither whitespace nor a word character nor a digit and
  has no case.
\<close>

definition ascii_tables :: unicode where
  "ascii_tables =
     \<lparr>u_isspace = ascii_isspace, u_isword = ascii_isword, u_upper = (\<lambda>c. [ascii_upper c]),
      u_lower = map ascii_lower, u_ci_match = (\<lambda>p c. ascii_lower c = ascii_lower p),
      u_decimal = ascii_decimal, u_isdigit = (\<lambda>c. ascii_decimal c \<noteq> None)\<rparr>"

subsection \<open>Operations on text\<close>

definition py_upper :: "unicode \<Rightarrow> pystr \<Rightarrow> pystr" where
  "py_upper U s = concat (map (u_upper U) s)"

definition py_strip :: "unicode \<Rightarrow> pystr \<Rightarrow> pystr" where
  "py_strip U s = rev (dropWhile (u_isspace U) (rev (dropWhile (u_isspace U) s)))"

text \<open>\<^verbatim>\<open>s.split()\<close>: the maximal runs of code points that are not whitespace.\<close>

fun split_ws :: "unicode \<Rightarrow> pystr \<Rightarrow> pystr \<Rightarrow> pystr list" where
  "split_ws U cur [] = (if cur = [] then [] else [cur])"
| "split_ws U cur (c # cs) =
     (if u_isspace U c then (if cur = [] then split_ws U [] cs else cur # split_ws U [] cs)
      else split_ws U (cur @ [c]) cs)"

definition py_split :: "unicode \<Rightarrow> pystr \<Rightarrow> pystr list" where
  "py_split U s = split_ws U [] s"

fun py_join :: "pystr \<Rightarrow> pystr list \<Rightarrow> pystr" where
  "py_join sep [] = []"
| "py_join sep [x] = x"
| "py_join sep (x # y # ys) = x @ sep @ py_join sep (y # ys)"

text \<open>\<^verbatim>\<open>s[:n]\<close> for an integer \<open>n\<close>: a negative bound counts from the end.\<close>

definition py_slice_to :: "int \<Rightarrow> 'a list \<Rightarrow> 'a list" where
  "py_slice_to n xs = (if 0 \<le> n then take (nat n) xs else take (length xs - nat (- n)) xs)"

function str_nat :: "nat \<Rightarrow> pystr" where
  "str_nat n = (if n < 10 then [48 + n] else str_nat (n div 10) @ [48 + n mod 10])"
  by pat_completeness auto
termination
  by (relation "measure id") auto

definition str_int :: "int \<Rightarrow> pystr" where
  "str_int i = (if i < 0 then 45 # str_nat (nat (- i)) else str_nat (nat i))"

definition zero_pad :: "nat \<Rightarrow> nat \<Rightarrow> pystr" where
  "zero_pad w n = replicate (w - length (str_nat n)) 48 @ str_nat n"

subsection \<open>Searching a token between word boundaries\<close>

text \<open>
  \<^verbatim>\<open>re.search(r'\bTOKEN\b', s)\<close>: a boundary stands between two positions of which
  exactly one holds a word character (the two ends of the text hold none). The search
  tries every position from the left; \<open>prev\<close> is the code point before the position.
\<close>

definition word_opt :: "unicode \<Rightarrow> nat option \<Rightarrow> bool" where
  "word_opt U a = (case a of None \<Rightarrow> False | Some c \<Rightarrow> u_isword U c)"

definition word_boundary :: "unicode \<Rightarrow> nat option \<Rightarrow> nat option \<Rightarrow> bool" where
  "word_boundary U a b = (word_opt U a \<noteq> word_opt U b)"

definition head_opt :: "pystr \<Rightarrow> nat option" where
  "head_opt s = (case s of [] \<Rightarrow> None | c # _ \<Rightarrow> Some c)"

definition match_token_here :: "unicode \<Rightarrow> pystr \<Rightarrow> nat option \<Rightarrow> pystr \<Rightarrow> bool" where
  "match_token_here U w prev s =
     (word_boundary U prev (head_opt s) \<and> take (length w) s = w \<and>
      word_boundary U (if w = [] then prev else Some (last w)) (head_opt (drop (length w) s)))"

fun re_search_token :: "unicode \<Rightarrow> pystr \<Rightarrow> nat option \<Rightarrow> pystr \<Rightarrow> bool" where
  "re_search_token U w prev [] = match_token_here U w prev []"
| "re_search_token U w prev (c # cs) =
     (match_token_here U w prev (c # cs) \<or> re_search_token U w (Some c) cs)"

section \<open>The Decision Interpreter\<close>

text \<open>
  Lines 305 to 324 of \<^verbatim>\<open>ollama_check_similarity\<close>: the reading of the content of the
  model's response.
\<close>

definition interpret_answer :: "unicode \<Rightarrow> pystr \<Rightarrow> bool" where
  "interpret_answer U content =
     (let raw_answer = py_strip U content;
          processed_answer = py_upper U raw_answer
      in if processed_answer = lit ''YES'' then True
         else if processed_answer = lit ''NO'' then False
         else if re_search_token U (lit ''YES'') None processed_answer \<and>
                 \<not> re_search_token U (lit ''NO'') None processed_answer then True
         else if re_search_token U (lit ''NO'') None processed_answer \<and>
                 \<not> re_search_token U (lit ''YES'') None processed_answer then False
         else False)"

text \<open>
  The specification's standalone token: the token stands in the text with no word
  character directly before it and none directly after it.
\<close>

definition standalone :: "unicode \<Rightarrow> pystr \<Rightarrow> pystr \<Rightarrow> bool" where
  "standalone U w s =
     (\<exists>pre post. s = pre @ w @ post \<and> (pre = [] \<or> \<not> u_isword U (last pre)) \<and>
        (post = [] \<or> \<not> u_isword U (hd post)))"

section \<open>The three substitutions of the HTML cleaner\<close>

text \<open>
  \<^verbatim>\<open>re.sub(pattern, ' ', text)\<close> for the three patterns of \<^verbatim>\<open>extract_text_from_part\<close>:
  \<^verbatim>\<open><style[^<]*?</style>\<close> and \<^verbatim>\<open><script[^<]*?</script>\<close>, where case is ignored, and
  \<^verbatim>\<open><[^<]+?>\<close>. A match attempt at the head of a text returns the text after the match.
  The run \<^verbatim>\<open>[^<]*?\<close> cannot step over a \<^verbatim>\<open><\<close> and the closing literal starts with one,
  so the closing literal can only stand at the first \<^verbatim>\<open><\<close> after the opening literal.
  In the third pattern the code point after the opening \<^verbatim>\<open><\<close> must not be a \<^verbatim>\<open><\<close>, and the
  match ends at the first \<^verbatim>\<open>>\<close> behind it, unless a \<^verbatim>\<open><\<close> comes first.
\<close>

datatype pat = StyleBlock | ScriptBlock | Tag

definition prefix_ci :: "unicode \<Rightarrow> pystr \<Rightarrow> pystr \<Rightarrow> bool" where
  "prefix_ci U w s = (length w \<le> length s \<and> list_all2 (u_ci_match U) w (take (length w) s))"

definition match_block :: "unicode \<Rightarrow> pystr \<Rightarrow> pystr \<Rightarrow> pystr \<Rightarrow> pystr option" where
  "match_block U opn cls s =
     (if prefix_ci U opn s then
        (let r = dropWhile (\<lambda>c. c \<noteq> 60) (drop (length opn) s)
         in if prefix_ci U cls r then Some (drop (length cls) r) else None)
      else None)"

fun match_tag :: "pystr \<Rightarrow> pystr option" where
  "match_tag (c # x # r) =
     (if c = 60 \<and> x \<noteq> 60 then
        (case dropWhile (\<lambda>c. c \<noteq> 60 \<and> c \<noteq> 62) r of
           [] \<Rightarrow> None
         | d # rest \<Rightarrow> if d = 62 then Some rest else None)
      else None)"
| "match_tag _ = None"

definition match_pat :: "unicode \<Rightarrow> pat \<Rightarrow> pystr \<Rightarrow> pystr option" where
  "match_pat U p s =
     (case p of
        StyleBlock \<Rightarrow> match_block U (lit ''<style'') (lit ''</style>'') s
      | ScriptBlock \<Rightarrow> match_block U (lit ''<script'') (lit ''</script>'') s
      | Tag \<Rightarrow> match_tag s)"

lemma match_block_shorter:
  assumes "match_block U opn cls s = Some rest" "opn \<noteq> []"
  shows "length rest < length s"
proof -
  from assms(1) have p: "prefix_ci U opn s"
    and r: "rest = drop (length cls) (dropWhile (\<lambda>c. c \<noteq> 60) (drop (length opn) s))"
    by (auto simp add: match_block_def Let_def split: if_splits)
  have "length rest \<le> length (dropWhile (\<lambda>c. c \<noteq> 60) (drop (length opn) s))"
    unfolding r by simp
  also have "\<dots> \<le> length (drop (length opn) s)"
    by (rule length_dropWhile_le)
  also have "\<dots> < length s"
    using p assms(2) by (cases opn) (auto simp add: prefix_ci_def)
  finally show ?thesis .
qed

lemma match_tag_shorter:
  assumes "match_tag s = Some rest"
  shows "length rest < length s"
proof (cases s)
  case Nil
  with assms show ?thesis by simp
next
  case (Cons c t)
  show ?thesis
  proof (cases t)
    case Nil
    with assms Cons show ?thesis by simp
  next
    case (Cons x r)
    with \<open>s = c # t\<close> have s: "s = c # x # r" by simp
    let ?d = "dropWhile (\<lambda>c. c \<noteq> 60 \<and> c \<noteq> 62) r"
    from assms s obtain d where d: "?d = d # rest"
      by (auto split: if_splits list.splits)
    have "length ?d \<le> length r"
      by (rule length_dropWhile_le)
    with d s show ?thesis by simp
  qed
qed

lemma match_pat_shorter:
  assumes "match_pat U p s = Some rest"
  shows "length rest < length s"
proof (cases p)
  case StyleBlock
  with assms have "match_block U (lit ''<style'') (lit ''</style>'') s = Some rest"
    by (simp add: match_pat_def)
  then show ?thesis by (rule match_block_shorter) (simp add: lit_def)
next
  case ScriptBlock
  with assms have "match_block U (lit ''<script'') (lit ''</script>'') s = Some rest"
    by (simp add: match_pat_def)
  then show ?thesis by (rule match_block_shorter) (simp add: lit_def)
next
  case Tag
  with assms have "match_tag s = Some rest"
    by (simp add: match_pat_def)
  then show ?thesis by (rule match_tag_shorter)
qed

function re_sub_space :: "unicode \<Rightarrow> pat \<Rightarrow> pystr \<Rightarrow> pystr" where
  "re_sub_space U p [] = []"
| "re_sub_space U p (c # cs) =
     (case match_pat U p (c # cs) of
        Some rest \<Rightarrow> 32 # re_sub_space U p rest
      | None \<Rightarrow> c # re_sub_space U p cs)"
  by pat_completeness auto
termination
  by (relation "measure (\<lambda>(U, p, s). length s)") (auto dest: match_pat_shorter)

definition strip_html :: "unicode \<Rightarrow> pystr \<Rightarrow> pystr" where
  "strip_html U decoded_data =
     (let html_text = re_sub_space U StyleBlock decoded_data;
          html_text = re_sub_space U ScriptBlock html_text;
          html_text = re_sub_space U Tag html_text
      in html_text)"

section \<open>Data of the mail collaborator and of the configuration\<close>

text \<open>
  A raw message record as the mail API returns it. A key that the source reads with
  \<^verbatim>\<open>.get\<close> or tests with \<^verbatim>\<open>in\<close> is an option; a header is its name and its value.
\<close>

record body_rec =
  data :: "pystr option"

datatype part =
  Part (mimeType: "pystr option") (part_body: "body_rec option") (sub_parts: "part list option")

record payload_rec =
  headers :: "(pystr \<times> pystr) list option"
  root :: part

record message_data =
  msg_id :: "pystr option"
  msg_snippet :: "pystr option"
  payload :: "payload_rec option"

text \<open>
  A parsed date: the fields of a \<^verbatim>\<open>datetime\<close>, and the offset of its fixed time zone in
  seconds (\<open>None\<close> for a naive value).
\<close>

record datetime =
  year :: nat
  month :: nat
  day :: nat
  hour :: nat
  minute :: nat
  second :: nat
  utcoffset :: "int option"

record email_content =
  email_id :: "pystr option"
  snippet :: pystr
  subject :: pystr
  sender :: pystr
  body :: pystr
  received_date_str :: pystr
  received_datetime :: "datetime option"

text \<open>
  The configuration. The keys the source reads with \<^verbatim>\<open>CONFIG[...]\<close> are plain fields,
  the keys it reads with \<^verbatim>\<open>CONFIG.get\<close> are options (the defaults are applied where
  they are read). The temperature is passed through to the model call untouched and is
  left out.
\<close>

record config =
  ai_folder_prefix :: pystr
  inbox_label_name :: "pystr option"
  max_emails_to_scan_inbox :: int
  max_examples_per_folder :: "int option"
  max_body_length_for_llm :: "int option"
  ollama_host :: pystr
  ollama_model :: "pystr option"
  similarity_prompt_v3 :: "pystr list option"

text \<open>
  The two library calls of the extractor whose results the source only passes on:
  \<^verbatim>\<open>base64.urlsafe_b64decode(d).decode('utf-8', errors='ignore')\<close> and
  \<^verbatim>\<open>email.utils.parsedate_to_datetime\<close>. \<open>None\<close> is a raised exception. The theorems
  about the extractor hold for every behaviour of the two.
\<close>

record pylib =
  b64_utf8_decode :: "pystr \<Rightarrow> pystr option"
  parsedate_to_datetime :: "pystr \<Rightarrow> datetime option"

section \<open>The Email Content Extractor\<close>

text \<open>
  \<^verbatim>\<open>strftime('%Y-%m-%d %H:%M:%S %Z')\<close>, as the C library of Linux prints it: the year is
  not padded. The name of a fixed-offset zone without a name of its own is \<^verbatim>\<open>UTC\<close> at
  offset zero and \<^verbatim>\<open>UTC+HH:MM\<close> otherwise (with the seconds when there are any); a naive
  value has the empty name.
\<close>

definition tzname :: "int \<Rightarrow> pystr" where
  "tzname off =
     (if off = 0 then lit ''UTC''
      else (let a = nat \<bar>off\<bar>; h = a div 3600; m = (a mod 3600) div 60; s = a mod 60
            in lit ''UTC'' @ (if off < 0 then lit ''-'' else lit ''+'') @ zero_pad 2 h @ lit '':'' @
               zero_pad 2 m @ (if s = 0 then [] else lit '':'' @ zero_pad 2 s)))"

definition strftime :: "datetime \<Rightarrow> pystr" where
  "strftime d =
     str_nat (year d) @ lit ''-'' @ zero_pad 2 (month d) @ lit ''-'' @ zero_pad 2 (day d) @ lit '' '' @
     zero_pad 2 (hour d) @ lit '':'' @ zero_pad 2 (minute d) @ lit '':'' @ zero_pad 2 (second d) @
     lit '' '' @ (case utcoffset d of None \<Rightarrow> [] | Some off \<Rightarrow> tzname off)"

datatype text_kind = Plain | Html

definition extract_text_from_part ::
  "unicode \<Rightarrow> pylib \<Rightarrow> part \<Rightarrow> (pystr \<times> text_kind) option" where
  "extract_text_from_part U lib part_data =
     (let mime_type = (case mimeType part_data of None \<Rightarrow> [] | Some m \<Rightarrow> m) in
      case part_body part_data of
        None \<Rightarrow> None
      | Some b \<Rightarrow>
          (case data b of
             None \<Rightarrow> None
           | Some d \<Rightarrow>
               (case b64_utf8_decode lib d of
                  None \<Rightarrow> None
                | Some decoded_data \<Rightarrow>
                    if mime_type = lit ''text/plain'' then Some (decoded_data, Plain)
                    else if mime_type = lit ''text/html'' then Some (strip_html U decoded_data, Html)
                    else None)))"

text \<open>
  \<^verbatim>\<open>if text: (plain_parts if type == 'plain' else html_parts).append(text)\<close>, on the pair
  of the two lists.
\<close>

definition add_candidate ::
  "(pystr \<times> text_kind) option \<Rightarrow> pystr list \<times> pystr list \<Rightarrow> pystr list \<times> pystr list" where
  "add_candidate r acc =
     (case r of
        None \<Rightarrow> acc
      | Some (text, kind) \<Rightarrow>
          if text \<noteq> [] then
            (if kind = Plain then (fst acc @ [text], snd acc) else (fst acc, snd acc @ [text]))
          else acc)"

fun collect_sub_parts ::
  "unicode \<Rightarrow> pylib \<Rightarrow> part list \<Rightarrow> pystr list \<times> pystr list \<Rightarrow> pystr list \<times> pystr list" where
  "collect_sub_parts U lib [] acc = acc"
| "collect_sub_parts U lib (sub_part_item # ps) acc =
     collect_sub_parts U lib ps (add_candidate (extract_text_from_part U lib sub_part_item) acc)"

fun collect_parts ::
  "unicode \<Rightarrow> pylib \<Rightarrow> part list \<Rightarrow> pystr list \<times> pystr list \<Rightarrow> pystr list \<times> pystr list" where
  "collect_parts U lib [] acc = acc"
| "collect_parts U lib (part_item # ps) acc =
     (let acc1 = add_candidate (extract_text_from_part U lib part_item) acc;
          acc2 = (case sub_parts part_item of
                    None \<Rightarrow> acc1
                  | Some subs \<Rightarrow> collect_sub_parts U lib subs acc1)
      in collect_parts U lib ps acc2)"

definition collect_candidates ::
  "unicode \<Rightarrow> pylib \<Rightarrow> payload_rec option \<Rightarrow> pystr list \<times> pystr list" where
  "collect_candidates U lib pl =
     (case pl of
        None \<Rightarrow> ([], [])
      | Some p \<Rightarrow>
          (case sub_parts (root p) of
             Some ps \<Rightarrow> collect_parts U lib ps ([], [])
           | None \<Rightarrow>
               (case part_body (root p) of
                  Some b \<Rightarrow> add_candidate (extract_text_from_part U lib (root p)) ([], [])
                | None \<Rightarrow> ([], []))))"

definition joined_body_text :: "unicode \<Rightarrow> pylib \<Rightarrow> payload_rec option \<Rightarrow> pystr" where
  "joined_body_text U lib pl =
     (let (plain_parts, html_parts) = collect_candidates U lib pl
      in if plain_parts \<noteq> [] then py_join [10] plain_parts
         else py_join [10] html_parts)"

definition body_text_content :: "unicode \<Rightarrow> pylib \<Rightarrow> payload_rec option \<Rightarrow> pystr" where
  "body_text_content U lib pl = py_join [32] (py_split U (joined_body_text U lib pl))"

text \<open>The header loop: the last header of a name decides; a date that does not parse
  leaves the parsed value of an earlier date header in place.\<close>

record header_state =
  hs_subject :: pystr
  hs_sender :: pystr
  hs_date_str_header :: pystr
  hs_received_datetime_obj :: "datetime option"

definition header_step ::
  "unicode \<Rightarrow> pylib \<Rightarrow> header_state \<Rightarrow> pystr \<times> pystr \<Rightarrow> header_state" where
  "header_step U lib st header =
     (let name_lower = u_lower U (fst header) in
      if name_lower = lit ''subject'' then st\<lparr>hs_subject := snd header\<rparr>
      else if name_lower = lit ''from'' then st\<lparr>hs_sender := snd header\<rparr>
      else if name_lower = lit ''date'' then
        (case parsedate_to_datetime lib (snd header) of
           Some dt \<Rightarrow> st\<lparr>hs_date_str_header := snd header, hs_received_datetime_obj := Some dt\<rparr>
         | None \<Rightarrow> st\<lparr>hs_date_str_header := snd header\<rparr>)
      else st)"

definition max_len_for_llm :: "config \<Rightarrow> int" where
  "max_len_for_llm cfg = (case max_body_length_for_llm cfg of None \<Rightarrow> 1000 | Some n \<Rightarrow> n)"

definition get_email_content :: "unicode \<Rightarrow> config \<Rightarrow> pylib \<Rightarrow> message_data \<Rightarrow> email_content" where
  "get_email_content U cfg lib md =
     (let hdrs = (case payload md of
                    None \<Rightarrow> []
                  | Some p \<Rightarrow> (case headers p of None \<Rightarrow> [] | Some hs \<Rightarrow> hs));
          st = foldl (header_step U lib)
                 \<lparr>hs_subject = [], hs_sender = [], hs_date_str_header = [],
                  hs_received_datetime_obj = None\<rparr> hdrs;
          formatted_date = (case hs_received_datetime_obj st of
                              Some dt \<Rightarrow> strftime dt
                            | None \<Rightarrow> lit ''Unknown Date'');
          btc = body_text_content U lib (payload md);
          max_len = max_len_for_llm cfg
      in \<lparr>email_id = msg_id md,
          snippet = (case msg_snippet md of None \<Rightarrow> [] | Some s \<Rightarrow> s),
          subject = py_strip U (hs_subject st),
          sender = py_strip U (hs_sender st),
          body = py_slice_to max_len (py_strip U btc) @
                   (if int (length (py_strip U btc)) > max_len then lit ''...'' else []),
          received_date_str = formatted_date,
          received_datetime = hs_received_datetime_obj st\<rparr>)"

subsection \<open>What the extractor is to compute, in the words of the specification\<close>

text \<open>
  Collapsing every run of whitespace to one space, to be followed by trimming.
\<close>

fun collapse_runs :: "unicode \<Rightarrow> pystr \<Rightarrow> pystr" where
  "collapse_runs U [] = []"
| "collapse_runs U (c # cs) =
     (if u_isspace U c then
        (case cs of
           [] \<Rightarrow> [32]
         | d # _ \<Rightarrow> if u_isspace U d then collapse_runs U cs else 32 # collapse_runs U cs)
      else c # collapse_runs U cs)"









section \<open>The two library calls, as CPython 3.11 computes them\<close>

subsection \<open>Base64 and UTF-8\<close>

text \<open>
  \<^verbatim>\<open>base64.urlsafe_b64decode\<close> of a string: a code point outside ASCII raises; \<^verbatim>\<open>-\<close> and
  \<^verbatim>\<open>_\<close> stand for \<^verbatim>\<open>+\<close> and \<^verbatim>\<open>/\<close>; a character outside the alphabet is skipped; a \<^verbatim>\<open>=\<close>
  counts as padding only behind two or three characters of a group, and the
  padding that completes a group ends the decoding; a group left incomplete at the
  end raises.
\<close>

definition b64_val :: "nat \<Rightarrow> nat option" where
  "b64_val n =
     (if 65 \<le> n \<and> n \<le> 90 then Some (n - 65)
      else if 97 \<le> n \<and> n \<le> 122 then Some (n - 71)
      else if 48 \<le> n \<and> n \<le> 57 then Some (n + 4)
      else if n = 45 \<or> n = 43 then Some 62
      else if n = 95 \<or> n = 47 then Some 63
      else None)"

text \<open>
  The state of the decoder: the position in the group of four, the bits left over
  from the characters of the group read so far, and the padding characters seen
  since the last character of the alphabet.
\<close>

fun a2b_base64 :: "nat \<Rightarrow> nat \<Rightarrow> nat \<Rightarrow> pystr \<Rightarrow> nat list option" where
  "a2b_base64 quad_pos leftchar pads [] = (if quad_pos = 0 then Some [] else None)"
| "a2b_base64 quad_pos leftchar pads (c # cs) =
     (if c = 61 then
        (if 2 \<le> quad_pos then
           (if 4 \<le> quad_pos + (pads + 1) then Some []
            else a2b_base64 quad_pos leftchar (pads + 1) cs)
         else a2b_base64 quad_pos leftchar pads cs)
      else
        (case b64_val c of
           None \<Rightarrow> a2b_base64 quad_pos leftchar pads cs
         | Some v \<Rightarrow>
             if quad_pos = 0 then a2b_base64 1 v 0 cs
             else if quad_pos = 1 then
               map_option ((#) (leftchar * 4 + v div 16)) (a2b_base64 2 (v mod 16) 0 cs)
             else if quad_pos = 2 then
               map_option ((#) (leftchar * 16 + v div 4)) (a2b_base64 3 (v mod 4) 0 cs)
             else map_option ((#) (leftchar * 64 + v)) (a2b_base64 0 0 0 cs)))"

text \<open>
  \<^verbatim>\<open>bytes.decode('utf-8', errors='ignore')\<close>: a well-formed sequence gives its code point;
  a byte that starts no well-formed sequence is dropped.
\<close>

definition is_cont :: "nat \<Rightarrow> bool" where
  "is_cont b = (128 \<le> b \<and> b \<le> 191)"

definition utf8_head :: "nat list \<Rightarrow> (nat \<times> nat) option" where
  "utf8_head bs =
     (case bs of
        [] \<Rightarrow> None
      | b0 # r \<Rightarrow>
          if b0 < 128 then Some (b0, 1)
          else if 194 \<le> b0 \<and> b0 \<le> 223 then
            (case r of
               b1 # _ \<Rightarrow> if is_cont b1 then Some ((b0 - 192) * 64 + (b1 - 128), 2) else None
             | _ \<Rightarrow> None)
          else if 224 \<le> b0 \<and> b0 \<le> 239 then
            (case r of
               b1 # b2 # _ \<Rightarrow>
                 if is_cont b1 \<and> is_cont b2 \<and> (b0 = 224 \<longrightarrow> 160 \<le> b1) \<and> (b0 = 237 \<longrightarrow> b1 \<le> 159)
                 then Some ((b0 - 224) * 4096 + (b1 - 128) * 64 + (b2 - 128), 3) else None
             | _ \<Rightarrow> None)
          else if 240 \<le> b0 \<and> b0 \<le> 244 then
            (case r of
               b1 # b2 # b3 # _ \<Rightarrow>
                 if is_cont b1 \<and> is_cont b2 \<and> is_cont b3 \<and> (b0 = 240 \<longrightarrow> 144 \<le> b1) \<and>
                    (b0 = 244 \<longrightarrow> b1 \<le> 143)
                 then Some ((b0 - 240) * 262144 + (b1 - 128) * 4096 + (b2 - 128) * 64 + (b3 - 128), 4)
                 else None
             | _ \<Rightarrow> None)
          else None)"

function utf8_ignore :: "nat list \<Rightarrow> pystr" where
  "utf8_ignore [] = []"
| "utf8_ignore (b # bs) =
     (case utf8_head (b # bs) of
        Some (cp, n) \<Rightarrow> cp # utf8_ignore (drop (n - 1) bs)
      | None \<Rightarrow> utf8_ignore bs)"
  by pat_completeness auto
termination
  by (relation "measure length") auto

definition urlsafe_b64decode_utf8 :: "pystr \<Rightarrow> pystr option" where
  "urlsafe_b64decode_utf8 d =
     (if list_all (\<lambda>c. c < 128) d then map_option utf8_ignore (a2b_base64 0 0 0 d) else None)"

subsection \<open>Dates\<close>

text \<open>
  \<^verbatim>\<open>int(s)\<close> in base ten: whitespace around the number, a sign, and decimal digits
  with single underscores between them; more than 4300 digits raise. Of the ASCII
  characters only the six of the C locale count as whitespace here.
\<close>

definition int_space :: "unicode \<Rightarrow> nat \<Rightarrow> bool" where
  "int_space U c = (if c < 128 then (9 \<le> c \<and> c \<le> 13) \<or> c = 32 else u_isspace U c)"

definition int_digit :: "unicode \<Rightarrow> nat \<Rightarrow> nat option" where
  "int_digit U c = (if c < 128 then ascii_decimal c else if u_isspace U c then None else u_decimal U c)"

fun digits_value :: "unicode \<Rightarrow> nat \<Rightarrow> bool \<Rightarrow> pystr \<Rightarrow> nat option" where
  "digits_value U acc after_digit [] = (if after_digit then Some acc else None)"
| "digits_value U acc after_digit (c # cs) =
     (if c = 95 then (if after_digit then digits_value U acc False cs else None)
      else (case int_digit U c of
              None \<Rightarrow> None
            | Some d \<Rightarrow> digits_value U (10 * acc + d) True cs))"

definition py_int :: "unicode \<Rightarrow> pystr \<Rightarrow> int option" where
  "py_int U s =
     (let t = rev (dropWhile (int_space U) (rev (dropWhile (int_space U) s)));
          neg = (t \<noteq> [] \<and> hd t = 45);
          ds = (if t \<noteq> [] \<and> (hd t = 45 \<or> hd t = 43) then tl t else t)
      in if 4300 < length (filter (\<lambda>c. c \<noteq> 95) ds) then None
         else (case digits_value U 0 False ds of
                 None \<Rightarrow> None
               | Some n \<Rightarrow> Some (if neg then - int n else int n)))"

definition monthnames :: "pystr list" where
  "monthnames = map lit
     [''jan'', ''feb'', ''mar'', ''apr'', ''may'', ''jun'', ''jul'', ''aug'', ''sep'', ''oct'', ''nov'',
      ''dec'', ''january'', ''february'', ''march'', ''april'', ''may'', ''june'', ''july'', ''august'',
      ''september'', ''october'', ''november'', ''december'']"

definition daynames :: "pystr list" where
  "daynames = map lit [''mon'', ''tue'', ''wed'', ''thu'', ''fri'', ''sat'', ''sun'']"

definition timezones :: "(pystr \<times> int) list" where
  "timezones =
     map (\<lambda>(n, off). (lit n, off))
       [(''UT'', 0), (''UTC'', 0), (''GMT'', 0), (''Z'', 0),
        (''AST'', - 400), (''ADT'', - 300), (''EST'', - 500), (''EDT'', - 400),
        (''CST'', - 600), (''CDT'', - 500), (''MST'', - 700), (''MDT'', - 600),
        (''PST'', - 800), (''PDT'', - 700)]"

text \<open>\<^verbatim>\<open>s.find(c)\<close>, \<^verbatim>\<open>s.rfind(c)\<close> and \<^verbatim>\<open>list.index\<close>; \<open>None\<close> stands for \<^verbatim>\<open>-1\<close>.\<close>

fun find_index_of :: "'a \<Rightarrow> 'a list \<Rightarrow> nat option" where
  "find_index_of x [] = None"
| "find_index_of x (y # ys) =
     (if x = y then Some 0 else map_option Suc (find_index_of x ys))"

definition rfind_index_of :: "'a \<Rightarrow> 'a list \<Rightarrow> nat option" where
  "rfind_index_of x xs =
     map_option (\<lambda>i. length xs - 1 - i) (find_index_of x (rev xs))"

text \<open>\<^verbatim>\<open>s.split(sep)\<close> for a separator of one code point.\<close>

fun split_on :: "nat \<Rightarrow> pystr \<Rightarrow> pystr \<Rightarrow> pystr list" where
  "split_on sep cur [] = [cur]"
| "split_on sep cur (c # cs) =
     (if c = sep then cur # split_on sep [] cs else split_on sep (cur @ [c]) cs)"

definition drop_comma :: "pystr \<Rightarrow> pystr" where
  "drop_comma s = (if s \<noteq> [] \<and> last s = 44 then butlast s else s)"

text \<open>
  The time field: hours, minutes and seconds split at colons, or at full stops when
  there is no colon.
\<close>

definition split_time :: "pystr \<Rightarrow> (pystr \<times> pystr \<times> pystr) option" where
  "split_time tm =
     (case split_on 58 [] tm of
        [thh, tmm] \<Rightarrow> Some (thh, tmm, lit ''0'')
      | [thh, tmm, tss] \<Rightarrow> Some (thh, tmm, tss)
      | [t0] \<Rightarrow>
          if 46 \<in> set t0 then
            (case split_on 46 [] t0 of
               [thh, tmm] \<Rightarrow> Some (thh, tmm, lit ''0'')
             | [thh, tmm, tss] \<Rightarrow> Some (thh, tmm, tss)
             | _ \<Rightarrow> None)
          else None
      | _ \<Rightarrow> None)"

text \<open>The zone field as an offset in seconds; \<open>None\<close> makes the date naive.\<close>

definition zone_offset :: "unicode \<Rightarrow> pystr \<Rightarrow> int option" where
  "zone_offset U tz0 =
     (let tz = py_upper U tz0;
          tzoffset = (case map_of timezones tz of
                        Some off \<Rightarrow> Some off
                      | None \<Rightarrow>
                          (case py_int U tz of
                             None \<Rightarrow> None
                           | Some off \<Rightarrow> if off = 0 \<and> tz \<noteq> [] \<and> hd tz = 45 then None else Some off))
      in case tzoffset of
           None \<Rightarrow> None
         | Some off \<Rightarrow>
             if off = 0 then Some 0
             else if off < 0 then Some (- (((- off) div 100) * 3600 + ((- off) mod 100) * 60))
             else Some ((off div 100) * 3600 + (off mod 100) * 60))"

definition days_in_month :: "nat \<Rightarrow> nat \<Rightarrow> nat" where
  "days_in_month y m =
     (if m = 2 then (if y mod 4 = 0 \<and> (y mod 100 \<noteq> 0 \<or> y mod 400 = 0) then 29 else 28)
      else if m = 4 \<or> m = 6 \<or> m = 9 \<or> m = 11 then 30 else 31)"

text \<open>The constructors \<^verbatim>\<open>datetime\<close> and \<^verbatim>\<open>timezone\<close>: a field out of range raises.\<close>

definition make_datetime ::
  "int \<Rightarrow> nat \<Rightarrow> int \<Rightarrow> int \<Rightarrow> int \<Rightarrow> int \<Rightarrow> int option \<Rightarrow> datetime option" where
  "make_datetime yy mm dd thh tmm tss tz =
     (if 1 \<le> yy \<and> yy \<le> 9999 \<and> 1 \<le> mm \<and> mm \<le> 12 \<and> 1 \<le> dd \<and>
         dd \<le> int (days_in_month (nat yy) mm) \<and> 0 \<le> thh \<and> thh < 24 \<and> 0 \<le> tmm \<and> tmm < 60 \<and>
         0 \<le> tss \<and> tss < 60 \<and>
         (case tz of None \<Rightarrow> True | Some off \<Rightarrow> - 86400 < off \<and> off < 86400)
      then Some \<lparr>year = nat yy, month = mm, day = nat dd, hour = nat thh, minute = nat tmm,
                 second = nat tss, utcoffset = tz\<rparr>
      else None)"

text \<open>
  The steps of \<^verbatim>\<open>_parsedate_tz\<close> in their order: the five fields from the
  whitespace-separated words, then the date from the fields.
\<close>

definition date_fields :: "unicode \<Rightarrow> pystr \<Rightarrow> pystr list option" where
  "date_fields U s =
     (case py_split U s of
        [] \<Rightarrow> None
      | d0 # ds \<Rightarrow>
          (let data1 = (if last d0 = 44 \<or> u_lower U d0 \<in> set daynames then ds
                        else (case rfind_index_of 44 d0 of
                                Some i \<Rightarrow> drop (i + 1) d0 # ds
                              | None \<Rightarrow> d0 # ds));
               data2 = (if length data1 = 3 then
                          (let stuff = split_on 45 [] (hd data1)
                           in if length stuff = 3 then stuff @ tl data1 else data1)
                        else data1);
               data3 = (if length data2 = 4 then
                          (let t = data2 ! 3;
                               i = (case find_index_of 43 t of
                                      Some j \<Rightarrow> Some j
                                    | None \<Rightarrow> find_index_of 45 t)
                           in case i of
                                Some (Suc j) \<Rightarrow> take 3 data2 @ [take (Suc j) t, drop (Suc j) t]
                              | _ \<Rightarrow> data2 @ [[]])
                        else data2)
           in if length data3 < 5 then None else Some (take 5 data3)))"

definition date_of_fields ::
  "unicode \<Rightarrow> pystr \<Rightarrow> pystr \<Rightarrow> pystr \<Rightarrow> pystr \<Rightarrow> pystr \<Rightarrow> datetime option" where
  "date_of_fields U dd0 mm0 yy0 tm0 tz0 =
     (if dd0 = [] \<or> mm0 = [] \<or> yy0 = [] then None
      else
        (let mm1 = u_lower U mm0;
             swapped = (mm1 \<notin> set monthnames);
             dd1 = (if swapped then mm1 else dd0);
             mm2 = (if swapped then u_lower U dd0 else mm1)
         in case find_index_of mm2 monthnames of
              None \<Rightarrow> None
            | Some mi \<Rightarrow>
                if dd1 = [] then None
                else
                  (let mm = (if mi + 1 > 12 then mi + 1 - 12 else mi + 1);
                       dd2 = drop_comma dd1;
                       colon = (case find_index_of 58 yy0 of Some (Suc j) \<Rightarrow> True | _ \<Rightarrow> False);
                       yy1 = (if colon then tm0 else yy0);
                       tm1 = (if colon then yy0 else tm0)
                   in if yy1 = [] then None
                      else
                        (let yy2 = drop_comma yy1 in
                         if yy2 = [] then None
                         else
                           (let nodigit = \<not> u_isdigit U (hd yy2);
                                yy3 = (if nodigit then tz0 else yy2);
                                tz1 = (if nodigit then yy2 else tz0)
                            in if tm1 = [] then None
                               else
                                 (case split_time (drop_comma tm1) of
                                    None \<Rightarrow> None
                                  | Some (thh, tmm, tss) \<Rightarrow>
                                      (case (py_int U yy3, py_int U dd2, py_int U thh,
                                             py_int U tmm, py_int U tss) of
                                         (Some y, Some d, Some h, Some mi2, Some sec) \<Rightarrow>
                                           make_datetime
                                             (if y < 100 then (if y > 68 then y + 1900 else y + 2000)
                                              else y)
                                             mm d h mi2 sec (zone_offset U tz1)
                                       | _ \<Rightarrow> None)))))))"

definition py_parsedate_to_datetime :: "unicode \<Rightarrow> pystr \<Rightarrow> datetime option" where
  "py_parsedate_to_datetime U s =
     (case date_fields U s of
        Some [dd, mm, yy, tm, tz] \<Rightarrow> date_of_fields U dd mm yy tm tz
      | _ \<Rightarrow> None)"

definition stdlib :: "unicode \<Rightarrow> pylib" where
  "stdlib U =
     \<lparr>b64_utf8_decode = urlsafe_b64decode_utf8,
      parsedate_to_datetime = py_parsedate_to_datetime U\<rparr>"

section \<open>The records of the scenarios\<close>

definition default_config :: config where
  "default_config =
     \<lparr>ai_folder_prefix = lit ''AI_AUTO_'', inbox_label_name = None, max_emails_to_scan_inbox = 10,
      max_examples_per_folder = None, max_body_length_for_llm = None,
      ollama_host = lit ''http://localhost:11434'', ollama_model = None,
      similarity_prompt_v3 = None\<rparr>"

definition capped_config :: config where
  "capped_config = default_config\<lparr>max_body_length_for_llm := Some 8\<rparr>"

definition negative_config :: config where
  "negative_config = default_config\<lparr>max_body_length_for_llm := Some (- 3)\<rparr>"

definition text_part :: "string \<Rightarrow> string \<Rightarrow> part" where
  "text_part mt d = Part (Some (lit mt)) (Some \<lparr>data = Some (lit d)\<rparr>) None"

text \<open>The record of the invoice scenario; its data is the base64 of \<^verbatim>\<open>Please pay.\<close>\<close>

definition invoice_record :: message_data where
  "invoice_record =
     \<lparr>msg_id = Some (lit ''m1''), msg_snippet = Some (lit ''Please pay.''),
      payload = Some \<lparr>headers = Some [(lit ''Subject'', lit ''Invoice #42''),
                                      (lit ''From'', lit ''b@x.com''),
                                      (lit ''Date'', lit ''Tue, 1 Jan 2024 10:00:00 GMT'')],
                      root = text_part ''text/plain'' ''UGxlYXNlIHBheS4=''\<rparr>\<rparr>"

text \<open>
  A plain message whose text is two spaces, \<^verbatim>\<open>Dear   customer,\<close>, a line feed, a tab and
  \<^verbatim>\<open>pay now\<close> followed by two spaces.
\<close>

definition dear_record :: message_data where
  "dear_record =
     \<lparr>msg_id = Some (lit ''m2''), msg_snippet = None,
      payload = Some \<lparr>headers = Some [(lit ''subject'', lit ''Reminder'')],
                      root = text_part ''text/plain'' ''ICBEZWFyICAgY3VzdG9tZXIsCglwYXkgbm93ICA=''\<rparr>\<rparr>"





section \<open>Properties of the Decision Interpreter\<close>

lemma ascii_tables_conform: "ascii_conform ascii_tables"
proof -
  have "(ascii_lower c = ascii_lower p) = (c = p)" if "\<not> ascii_isalpha p" for c p
    using that by (auto simp add: ascii_lower_def ascii_isalpha_def split: if_splits)
  then show ?thesis
    by (simp add: ascii_conform_def ascii_tables_def)
qed

lemma conform_isspace: "ascii_conform U \<Longrightarrow> c < 128 \<Longrightarrow> u_isspace U c = ascii_isspace c"
  by (simp add: ascii_conform_def)

lemma conform_isword: "ascii_conform U \<Longrightarrow> c < 128 \<Longrightarrow> u_isword U c = ascii_isword c"
  by (simp add: ascii_conform_def)

lemma conform_upper: "ascii_conform U \<Longrightarrow> c < 128 \<Longrightarrow> u_upper U c = [ascii_upper c]"
  by (simp add: ascii_conform_def)

lemma conform_decimal: "ascii_conform U \<Longrightarrow> c < 128 \<Longrightarrow> u_decimal U c = ascii_decimal c"
  by (simp add: ascii_conform_def)

lemma conform_isdigit:
  "ascii_conform U \<Longrightarrow> c < 128 \<Longrightarrow> u_isdigit U c = (ascii_decimal c \<noteq> None)"
  by (simp add: ascii_conform_def)

lemma conform_lower:
  "ascii_conform U \<Longrightarrow> list_all (\<lambda>c. c < 128) s \<Longrightarrow> u_lower U s = map ascii_lower s"
  by (simp add: ascii_conform_def)

lemma match_token_here_iff:
  assumes "w \<noteq> []" "u_isword U (hd w)" "u_isword U (last w)"
  shows "match_token_here U w prev s \<longleftrightarrow>
         (\<exists>post. s = w @ post \<and> \<not> word_opt U prev \<and> (post = [] \<or> \<not> u_isword U (hd post)))"
proof
  assume m: "match_token_here U w prev s"
  then have t: "take (length w) s = w"
    by (simp add: match_token_here_def)
  then have s: "s = w @ drop (length w) s"
    by (metis append_take_drop_id)
  from assms(1) s obtain c cs where scs: "s = c # cs" and c: "c = hd w"
    by (cases s; cases w) auto
  from m scs c assms have p: "\<not> word_opt U prev"
    by (simp add: match_token_here_def word_boundary_def head_opt_def word_opt_def)
  from m assms have e: "drop (length w) s = [] \<or> \<not> u_isword U (hd (drop (length w) s))"
    by (cases "drop (length w) s")
       (simp_all add: match_token_here_def word_boundary_def head_opt_def word_opt_def)
  from s p e show "\<exists>post. s = w @ post \<and> \<not> word_opt U prev \<and> (post = [] \<or> \<not> u_isword U (hd post))"
    by blast
next
  assume "\<exists>post. s = w @ post \<and> \<not> word_opt U prev \<and> (post = [] \<or> \<not> u_isword U (hd post))"
  then obtain post where s: "s = w @ post" and p: "\<not> word_opt U prev"
    and e: "post = [] \<or> \<not> u_isword U (hd post)" by blast
  from assms(1) obtain c cs where w: "w = c # cs" by (cases w) auto
  from s w p e assms show "match_token_here U w prev s"
    by (cases post)
       (auto simp add: match_token_here_def word_boundary_def head_opt_def word_opt_def)
qed

lemma re_search_token_iff:
  assumes "w \<noteq> []" "u_isword U (hd w)" "u_isword U (last w)"
  shows "re_search_token U w prev s \<longleftrightarrow>
         (\<exists>pre post. s = pre @ w @ post \<and>
            \<not> word_opt U (if pre = [] then prev else Some (last pre)) \<and>
            (post = [] \<or> \<not> u_isword U (hd post)))"
proof (induction s arbitrary: prev)
  case Nil
  from assms show ?case
    by (simp add: match_token_here_iff)
next
  case (Cons c cs)
  let ?R = "\<lambda>pv t pre post. t = pre @ w @ post \<and>
            \<not> word_opt U (if pre = [] then pv else Some (last pre)) \<and>
            (post = [] \<or> \<not> u_isword U (hd post))"
  have "(\<exists>pre post. ?R prev (c # cs) pre post) \<longleftrightarrow>
        (\<exists>post. ?R prev (c # cs) [] post) \<or> (\<exists>pre post. ?R (Some c) cs pre post)"
  proof
    assume "\<exists>pre post. ?R prev (c # cs) pre post"
    then obtain pre post where r: "?R prev (c # cs) pre post" by blast
    show "(\<exists>post. ?R prev (c # cs) [] post) \<or> (\<exists>pre post. ?R (Some c) cs pre post)"
    proof (cases pre)
      case Nil
      with r show ?thesis by auto
    next
      case (Cons d ds)
      with r have "?R (Some c) cs ds post" by (auto split: if_splits)
      then show ?thesis by blast
    qed
  next
    assume "(\<exists>post. ?R prev (c # cs) [] post) \<or> (\<exists>pre post. ?R (Some c) cs pre post)"
    then show "\<exists>pre post. ?R prev (c # cs) pre post"
    proof
      assume "\<exists>post. ?R prev (c # cs) [] post"
      then show ?thesis by blast
    next
      assume "\<exists>pre post. ?R (Some c) cs pre post"
      then obtain pre post where r: "?R (Some c) cs pre post" by blast
      then have "?R prev (c # cs) (c # pre) post" by (auto split: if_splits)
      then show ?thesis by blast
    qed
  qed
  moreover have "match_token_here U w prev (c # cs) \<longleftrightarrow> (\<exists>post. ?R prev (c # cs) [] post)"
    using assms by (simp add: match_token_here_iff)
  ultimately show ?case
    using Cons.IH [of "Some c"] by simp
qed

lemma search_standalone:
  assumes "w \<noteq> []" "u_isword U (hd w)" "u_isword U (last w)"
  shows "re_search_token U w None s = standalone U w s"
proof -
  have "\<And>pre. (\<not> word_opt U (if pre = [] then None else Some (last pre))) =
              (pre = [] \<or> \<not> u_isword U (last pre))"
    by (simp add: word_opt_def)
  then show ?thesis
    unfolding standalone_def re_search_token_iff [OF assms] by simp
qed

section \<open>Whitespace collapsing and the length cap\<close>

lemma rstrip_id: "s = [] \<or> \<not> P (last s) \<Longrightarrow> rev (dropWhile P (rev s)) = s"
  by (cases s rule: rev_cases) auto

lemma rstrip_append:
  assumes "\<exists>x\<in>set b. \<not> P x"
  shows "rev (dropWhile P (rev (a @ b))) = a @ rev (dropWhile P (rev b))"
proof -
  from assms have "\<exists>x\<in>set (rev b). \<not> P x" by simp
  then have "dropWhile P (rev b @ rev a) = dropWhile P (rev b) @ rev a"
    by (metis dropWhile_append1)
  then show ?thesis by simp
qed

lemma rstrip_spaces:
  assumes "\<forall>x\<in>set b. P x"
  shows "rev (dropWhile P (rev (a @ b))) = rev (dropWhile P (rev a))"
proof -
  have "dropWhile P (rev b @ rev a) = dropWhile P (rev a)"
    by (rule dropWhile_append2) (use assms in auto)
  then show ?thesis by simp
qed

lemma rstrip_nonempty:
  assumes "\<exists>x\<in>set b. \<not> P x"
  shows "rev (dropWhile P (rev b)) \<noteq> []"
  using assms by (simp add: dropWhile_eq_Nil_conv)

lemma rstrip_keeps_head:
  assumes "y = [] \<or> \<not> P (hd y)"
  shows "rev (dropWhile P (rev y)) = [] \<or> \<not> P (hd (rev (dropWhile P (rev y))))"
proof (cases y)
  case Nil
  then show ?thesis by simp
next
  case (Cons a ys)
  with assms have a: "\<not> P a" by simp
  show ?thesis
  proof (cases "\<exists>v\<in>set ys. \<not> P v")
    case True
    from rstrip_append [of ys P "[a]", OF True] Cons a show ?thesis by simp
  next
    case False
    then have "\<forall>v\<in>set ys. P v" by blast
    from rstrip_spaces [of ys P "[a]", OF this] Cons a show ?thesis by simp
  qed
qed

lemma rstrip_last:
  "rev (dropWhile P (rev y)) = [] \<or> \<not> P (last (rev (dropWhile P (rev y))))"
proof (cases "dropWhile P (rev y)")
  case Nil
  then show ?thesis by simp
next
  case (Cons l ls)
  then have "\<not> P l"
    by (metis hd_dropWhile list.distinct(1) list.sel(1))
  with Cons show ?thesis by simp
qed

lemma py_strip_idem: "py_strip U (py_strip U x) = py_strip U x"
proof -
  define P where "P = u_isspace U"
  define y where "y = dropWhile P x"
  define z where "z = rev (dropWhile P (rev y))"
  have "y = [] \<or> \<not> P (hd y)"
    unfolding y_def by (metis hd_dropWhile)
  then have hd_z: "z = [] \<or> \<not> P (hd z)"
    unfolding z_def by (rule rstrip_keeps_head)
  have last_z: "z = [] \<or> \<not> P (last z)"
    unfolding z_def by (rule rstrip_last)
  from hd_z have "dropWhile P z = z"
    by (cases z) auto
  moreover from last_z have "rev (dropWhile P (rev z)) = z"
    by (rule rstrip_id)
  ultimately have "rev (dropWhile P (rev (dropWhile P z))) = z"
    by simp
  then show ?thesis
    unfolding py_strip_def z_def y_def P_def .
qed

lemma collapse_runs_space:
  assumes "u_isspace U 32"
  shows "u_isspace U c \<Longrightarrow>
         collapse_runs U (c # cs) = 32 # dropWhile (u_isspace U) (collapse_runs U cs)"
proof (induction cs arbitrary: c)
  case Nil
  then show ?case by simp
next
  case (Cons d ds)
  show ?case
  proof (cases "u_isspace U d")
    case True
    with Cons assms show ?thesis by simp
  next
    case False
    with Cons show ?thesis by simp
  qed
qed

lemma split_ws_nonempty: "w \<in> set (split_ws U cur t) \<Longrightarrow> w \<noteq> []"
  by (induction U cur t rule: split_ws.induct) (auto split: if_splits)

lemma py_join_Cons: "py_join sep (x # xs) = (if xs = [] then x else x @ sep @ py_join sep xs)"
  by (cases xs) auto

lemma py_join_empty: "(\<forall>w\<in>set ws. w \<noteq> []) \<Longrightarrow> py_join sep ws = [] \<longleftrightarrow> ws = []"
  by (cases ws) (auto simp add: py_join_Cons)

lemma join_split_collapse:
  assumes blank: "u_isspace U 32" and "\<forall>x\<in>set cur. \<not> u_isspace U x"
  shows "py_join [32] (split_ws U cur t) =
         rev (dropWhile (u_isspace U) (rev
           (if cur = [] then dropWhile (u_isspace U) (collapse_runs U t)
            else cur @ collapse_runs U t)))"
  using assms(2)
proof (induction t arbitrary: cur)
  case Nil
  then show ?case
    by (cases cur rule: rev_cases) auto
next
  case (Cons c cs)
  show ?case
  proof (cases "u_isspace U c")
    case False
    have "\<forall>x\<in>set (cur @ [c]). \<not> u_isspace U x"
      using Cons.prems False by auto
    from Cons.IH [OF this] False show ?thesis
      by simp
  next
    case True
    note sp = collapse_runs_space [OF blank True, of cs]
    define X where "X = dropWhile (u_isspace U) (collapse_runs U cs)"
    have ih: "py_join [32] (split_ws U [] cs) = rev (dropWhile (u_isspace U) (rev X))"
      unfolding X_def using Cons.IH [of "[]"] by simp
    show ?thesis
    proof (cases "cur = []")
      case True
      have "dropWhile (u_isspace U) (32 # X) = X"
        unfolding X_def using blank by simp
      with True \<open>u_isspace U c\<close> ih show ?thesis
        unfolding sp X_def [symmetric] by simp
    next
      case False
      have ne: "\<forall>w\<in>set (split_ws U [] cs). w \<noteq> []"
        using split_ws_nonempty by blast
      have lhs: "py_join [32] (split_ws U cur (c # cs)) =
                 (if split_ws U [] cs = [] then cur
                  else cur @ [32] @ py_join [32] (split_ws U [] cs))"
        using False \<open>u_isspace U c\<close> by (simp add: py_join_Cons)
      have curlast: "\<not> u_isspace U (last cur)"
        using False Cons.prems by simp
      have rhs: "rev (dropWhile (u_isspace U) (rev
                   (if cur = [] then dropWhile (u_isspace U) (collapse_runs U (c # cs))
                    else cur @ collapse_runs U (c # cs)))) =
                 rev (dropWhile (u_isspace U) (rev (cur @ 32 # X)))"
        unfolding sp X_def [symmetric] using False by simp
      show ?thesis
      proof (cases "X = []")
        case True
        have "py_join [32] (split_ws U [] cs) = []" unfolding ih True by simp
        then have e: "split_ws U [] cs = []" using py_join_empty [OF ne] by simp
        have "rev (dropWhile (u_isspace U) (rev (cur @ [32]))) = cur"
          using curlast False blank by (simp add: rstrip_id)
        with lhs e True show ?thesis unfolding rhs by simp
      next
        case nonempty: False
        have hdX: "\<not> u_isspace U (hd X)"
          using nonempty unfolding X_def by (metis hd_dropWhile)
        then have exX: "\<exists>x\<in>set X. \<not> u_isspace U x"
          using nonempty by (metis hd_in_set)
        then have exX': "\<exists>x\<in>set (32 # X). \<not> u_isspace U x" by auto
        have r1: "rev (dropWhile (u_isspace U) (rev (cur @ 32 # X))) =
                  cur @ rev (dropWhile (u_isspace U) (rev (32 # X)))"
          by (rule rstrip_append [OF exX'])
        have r2: "rev (dropWhile (u_isspace U) (rev (32 # X))) =
                  32 # rev (dropWhile (u_isspace U) (rev X))"
          using rstrip_append [OF exX, of "[32]"] by simp
        have "rev (dropWhile (u_isspace U) (rev X)) \<noteq> []"
          by (rule rstrip_nonempty [OF exX])
        then have "split_ws U [] cs \<noteq> []" using ih by auto
        with lhs ih r1 r2 show ?thesis unfolding rhs by simp
      qed
    qed
  qed
qed

lemma join_split_eq_collapse:
  assumes "u_isspace U 32"
  shows "py_join [32] (py_split U t) = py_strip U (collapse_runs U t)"
  using join_split_collapse [OF assms, of "[]" t] by (simp add: py_split_def py_strip_def)

lemma body_text_content_eq:
  assumes "u_isspace U 32"
  shows "body_text_content U lib pl = py_strip U (collapse_runs U (joined_body_text U lib pl))"
  by (simp add: body_text_content_def join_split_eq_collapse [OF assms])

lemma body_of_content:
  "body (get_email_content U cfg lib md) =
     py_slice_to (max_len_for_llm cfg) (py_strip U (body_text_content U lib (payload md))) @
       (if int (length (py_strip U (body_text_content U lib (payload md)))) > max_len_for_llm cfg
        then lit ''...'' else [])"
  by (simp add: get_email_content_def Let_def)


section \<open>The HTML cleaner on well-tagged text\<close>

subsection \<open>The tag scan and the substitutions\<close>
















section \<open>The candidates of the traversal\<close>


















section \<open>The invoice scenario\<close>

lemmas conform_rules = conform_isspace conform_isword conform_upper conform_decimal conform_isdigit conform_lower

lemmas ascii_defs = ascii_isspace_def ascii_isword_def ascii_isalpha_def ascii_upper_def ascii_lower_def ascii_decimal_def

lemma invoice_split:
  assumes "ascii_conform U"
  shows "py_split U (lit ''Tue, 1 Jan 2024 10:00:00 GMT'') = map lit [''Tue,'', ''1'', ''Jan'', ''2024'', ''10:00:00'', ''GMT'']"
  using assms by (simp add: py_split_def lit_def conform_rules ascii_defs)

lemma invoice_fields:
  assumes "ascii_conform U"
  shows "date_fields U (lit ''Tue, 1 Jan 2024 10:00:00 GMT'') = Some (map lit [''1'', ''Jan'', ''2024'', ''10:00:00'', ''GMT''])"
  unfolding date_fields_def invoice_split [OF assms]
  by (simp add: lit_def)

lemma py_int_ascii:
  assumes "ascii_conform U"
  shows "py_int U (lit ''1'') = Some 1" "py_int U (lit ''2024'') = Some 2024" "py_int U (lit ''10'') = Some 10"
    "py_int U (lit ''00'') = Some 0"
  using assms by (simp_all add: py_int_def lit_def int_space_def int_digit_def conform_rules ascii_defs Let_def)

lemma invoice_parse:
  assumes "ascii_conform U"
  shows "py_parsedate_to_datetime U (lit ''Tue, 1 Jan 2024 10:00:00 GMT'') =
    Some \<lparr>year = 2024, month = 1, day = 1, hour = 10, minute = 0, second = 0, utcoffset = Some 0\<rparr>"
proof -
  have low: "u_lower U (lit ''Jan'') = lit ''jan''"
    using assms by (simp add: conform_lower lit_def ascii_defs)
  have dig: "u_isdigit U (hd (lit ''2024''))"
    using assms by (simp add: conform_isdigit lit_def ascii_defs)
  have up: "py_upper U (lit ''GMT'') = lit ''GMT''"
    using assms by (simp add: py_upper_def conform_upper lit_def ascii_defs)
  have mon: "lit ''jan'' \<in> set monthnames" "find_index_of (lit ''jan'') monthnames = Some 0"
    by (simp_all add: monthnames_def lit_def)
  have tm: "split_time (drop_comma (lit ''10:00:00'')) = Some (lit ''10'', lit ''00'', lit ''00'')"
    by (simp add: split_time_def drop_comma_def lit_def)
  have zone: "zone_offset U (lit ''GMT'') = Some 0"
    unfolding zone_offset_def up by (simp add: timezones_def lit_def)
  have dc: "drop_comma (lit ''1'') = lit ''1''" "drop_comma (lit ''2024'') = lit ''2024''"
    by (simp_all add: drop_comma_def lit_def)
  have ne: "lit ''1'' \<noteq> []" "lit ''Jan'' \<noteq> []" "lit ''2024'' \<noteq> []" "lit ''10:00:00'' \<noteq> []"
    by (simp_all add: lit_def)
  have col: "find_index_of 58 (lit ''2024'') = None"
    by (simp add: lit_def)
  have "date_of_fields U (lit ''1'') (lit ''Jan'') (lit ''2024'') (lit ''10:00:00'') (lit ''GMT'') =
     Some \<lparr>year = 2024, month = 1, day = 1, hour = 10, minute = 0, second = 0, utcoffset = Some 0\<rparr>"
    unfolding date_of_fields_def Let_def low
    using mon ne dig
    by (simp add: col dc tm py_int_ascii [OF assms] zone make_datetime_def days_in_month_def)
  then show ?thesis
    unfolding py_parsedate_to_datetime_def invoice_fields [OF assms] by simp
qed

lemma invoice_decode:
  "urlsafe_b64decode_utf8 (lit ''UGxlYXNlIHBheS4='') = Some (lit ''Please pay.'')"
  by code_simp

lemma invoice_header_fold:
  assumes "ascii_conform U"
  shows "foldl (header_step U (stdlib U))
     \<lparr>hs_subject = [], hs_sender = [], hs_date_str_header = [], hs_received_datetime_obj = None\<rparr>
     [(lit ''Subject'', lit ''Invoice #42''), (lit ''From'', lit ''b@x.com''),
      (lit ''Date'', lit ''Tue, 1 Jan 2024 10:00:00 GMT'')] =
   \<lparr>hs_subject = lit ''Invoice #42'', hs_sender = lit ''b@x.com'',
    hs_date_str_header = lit ''Tue, 1 Jan 2024 10:00:00 GMT'',
    hs_received_datetime_obj =
      Some \<lparr>year = 2024, month = 1, day = 1, hour = 10, minute = 0, second = 0,
             utcoffset = Some 0\<rparr>\<rparr>"
proof -
  have low: "u_lower U (lit ''Subject'') = lit ''subject''" "u_lower U (lit ''From'') = lit ''from''"
    "u_lower U (lit ''Date'') = lit ''date''"
    using assms by (simp_all add: conform_lower lit_def ascii_defs)
  have ne: "lit ''subject'' \<noteq> lit ''from''" "lit ''date'' \<noteq> lit ''subject''" "lit ''date'' \<noteq> lit ''from''"
    "lit ''from'' \<noteq> lit ''subject''"
    by (simp_all add: lit_def)
  have p: "parsedate_to_datetime (stdlib U) (lit ''Tue, 1 Jan 2024 10:00:00 GMT'') =
    Some \<lparr>year = 2024, month = 1, day = 1, hour = 10, minute = 0, second = 0, utcoffset = Some 0\<rparr>"
    by (simp add: stdlib_def invoice_parse [OF assms])
  show ?thesis
    by (simp add: header_step_def Let_def low ne p)
qed

lemma invoice_text:
  assumes "ascii_conform U"
  shows "body_text_content U (stdlib U) (payload invoice_record) = lit ''Please pay.''"
proof -
  have j: "joined_body_text U (stdlib U) (payload invoice_record) = lit ''Please pay.''"
    by (simp add: joined_body_text_def collect_candidates_def invoice_record_def text_part_def
        add_candidate_def extract_text_from_part_def stdlib_def invoice_decode Let_def)
  show ?thesis
    unfolding body_text_content_def j using assms
    by (simp add: py_split_def lit_def conform_rules ascii_defs)
qed

lemma invoice_strips:
  assumes "ascii_conform U"
  shows "py_strip U (lit ''Invoice #42'') = lit ''Invoice #42''"
    and "py_strip U (lit ''b@x.com'') = lit ''b@x.com''"
    and "py_strip U (lit ''Please pay.'') = lit ''Please pay.''"
  using assms by (simp_all add: py_strip_def lit_def conform_rules ascii_defs)

lemma invoice_formatted:
  "strftime \<lparr>year = 2024, month = 1, day = 1, hour = 10, minute = 0, second = 0,
             utcoffset = Some 0\<rparr> = lit ''2024-01-01 10:00:00 UTC''"
  by code_simp


text \<open>
  C9 (as amended). For the raw record with the headers Subject \<^verbatim>\<open>Invoice #42\<close>, From
  \<^verbatim>\<open>b@x.com\<close> and Date \<^verbatim>\<open>Tue, 1 Jan 2024 10:00:00 GMT\<close> and the single plain body
  \<^verbatim>\<open>Please pay.\<close>, under every configuration whose body limit is at least 11 (the
  default is 1000), the extractor returns the subject \<^verbatim>\<open>Invoice #42\<close>, the sender
  \<^verbatim>\<open>b@x.com\<close>, the body \<^verbatim>\<open>Please pay.\<close> and the date text \<^verbatim>\<open>2024-01-01 10:00:00 UTC\<close>:
  the parsed date carries the fixed zone of offset zero, whose name is \<^verbatim>\<open>UTC\<close>, not the
  zone name written in the header.
\<close>

theorem invoice_scenario:
  assumes "ascii_conform U" "11 \<le> max_len_for_llm cfg"
  shows "subject (get_email_content U cfg (stdlib U) invoice_record) = lit ''Invoice #42''
       \<and> sender (get_email_content U cfg (stdlib U) invoice_record) = lit ''b@x.com''
       \<and> body (get_email_content U cfg (stdlib U) invoice_record) = lit ''Please pay.''
       \<and> received_date_str (get_email_content U cfg (stdlib U) invoice_record) =
           lit ''2024-01-01 10:00:00 UTC''"
proof -
  have hs: "(case payload invoice_record of None \<Rightarrow> []
             | Some p \<Rightarrow> (case headers p of None \<Rightarrow> [] | Some hs \<Rightarrow> hs)) =
            [(lit ''Subject'', lit ''Invoice #42''), (lit ''From'', lit ''b@x.com''),
             (lit ''Date'', lit ''Tue, 1 Jan 2024 10:00:00 GMT'')]"
    by (simp add: invoice_record_def)
  have len: "length (lit ''Please pay.'') = 11"
    by (simp add: lit_def)
  have b: "body (get_email_content U cfg (stdlib U) invoice_record) = lit ''Please pay.''"
    unfolding body_of_content invoice_text [OF assms(1)] invoice_strips [OF assms(1)] len
    using assms(2) len by (simp add: py_slice_to_def)
  have s: "subject (get_email_content U cfg (stdlib U) invoice_record) = lit ''Invoice #42''"
    unfolding get_email_content_def Let_def hs invoice_header_fold [OF assms(1)]
    by (simp add: invoice_strips [OF assms(1)])
  have f: "sender (get_email_content U cfg (stdlib U) invoice_record) = lit ''b@x.com''"
    unfolding get_email_content_def Let_def hs invoice_header_fold [OF assms(1)]
    by (simp add: invoice_strips [OF assms(1)])
  have d: "received_date_str (get_email_content U cfg (stdlib U) invoice_record) =
           lit ''2024-01-01 10:00:00 UTC''"
    unfolding get_email_content_def Let_def hs invoice_header_fold [OF assms(1)]
    using invoice_formatted by simp
  from s f b d show ?thesis by (intro conjI)
qed

theorem invoice_scenario_witness:
  "ascii_conform ascii_tables \<and> 11 \<le> max_len_for_llm default_config
   \<and> received_date_str (get_email_content ascii_tables default_config (stdlib ascii_tables)
        invoice_record) = lit ''2024-01-01 10:00:00 UTC''
   \<and> body (get_email_content ascii_tables default_config (stdlib ascii_tables) invoice_record) =
        lit ''Please pay.''"
proof -
  have h: "11 \<le> max_len_for_llm default_config" by code_simp
  from invoice_scenario [OF ascii_tables_conform h] ascii_tables_conform h show ?thesis by blast
qed

theorem invoice_date_counterexample:
  "received_date_str (get_email_content ascii_tables default_config (stdlib ascii_tables)
     invoice_record) \<noteq> lit ''2024-01-01 10:00:00 GMT''
   \<and> received_date_str (get_email_content ascii_tables default_config (stdlib ascii_tables)
     invoice_record) = lit ''2024-01-01 10:00:00 UTC''"
  by code_simp


section \<open>The claims about the Decision Interpreter and the body\<close>

lemma interpret_scenarios:
  assumes "ascii_conform U"
  shows "interpret_answer U (lit ''  yes  '') = True"
    and "interpret_answer U (lit ''I think the answer is NO.'') = False"
    and "interpret_answer U (lit ''yes... or no?'') = False"
  using assms
  by (simp_all add: interpret_answer_def py_strip_def py_upper_def lit_def conform_isspace
        conform_isword conform_upper ascii_isspace_def ascii_isword_def ascii_isalpha_def
        ascii_upper_def match_token_here_def word_boundary_def word_opt_def head_opt_def)

text \<open>
  Where the tables know more than ASCII the interpreter follows them: with a word
  character \<open>e\<close> (a letter such as U+00C9) before the token there is no boundary, and a
  code point whose upper-case mapping is \<^verbatim>\<open>S\<close> (such as U+017F) completes the token.
\<close>

lemma interpret_beyond_ascii:
  assumes "ascii_conform U" "128 \<le> e" "u_isword U e" "u_upper U e = [e]" "\<not> u_isspace U e"
  shows "interpret_answer U (e # lit ''yes'') = False"
    and "interpret_answer U (lit ''yes no'' @ [e]) = True"
proof -
  have a: "e \<noteq> 89" "e \<noteq> 69" "e \<noteq> 83" "e \<noteq> 78" "e \<noteq> 79" "e \<noteq> 32"
    using assms(2) by simp_all
  show "interpret_answer U (e # lit ''yes'') = False"
    using assms a
    by (simp add: interpret_answer_def py_strip_def py_upper_def lit_def conform_isspace
        conform_isword conform_upper ascii_isspace_def ascii_isword_def ascii_isalpha_def
        ascii_upper_def match_token_here_def word_boundary_def word_opt_def head_opt_def)
  show "interpret_answer U (lit ''yes no'' @ [e]) = True"
    using assms a
    by (simp add: interpret_answer_def py_strip_def py_upper_def lit_def conform_isspace
        conform_isword conform_upper ascii_isspace_def ascii_isword_def ascii_isalpha_def
        ascii_upper_def match_token_here_def word_boundary_def word_opt_def head_opt_def)
qed

lemma interpret_long_s:
  assumes "ascii_conform U" "u_upper U 383 = [83]" "\<not> u_isspace U 383"
  shows "interpret_answer U (lit ''ye'' @ [383]) = True"
  using assms
  by (simp add: interpret_answer_def py_strip_def py_upper_def lit_def conform_isspace
      conform_isword conform_upper ascii_isspace_def ascii_isword_def ascii_isalpha_def
      ascii_upper_def)

text \<open>
  C1. For every response, under tables that agree with Python on ASCII, the Decision
  Interpreter is the three-tier rule: the trimmed, uppercased response decides alone
  when it is exactly YES (match) or exactly NO (no-match); otherwise the result is
  match when the token YES stands between word boundaries somewhere in it and the
  token NO does not, no-match when NO does and YES does not, and no-match in every
  other case. The three responses of the scenario are decided as match, no-match and
  no-match.
\<close>

theorem interpret_answer_tiers:
  assumes "ascii_conform U"
  shows "interpret_answer U r =
     (let p = py_upper U (py_strip U r) in
        if p = lit ''YES'' then True
        else if p = lit ''NO'' then False
        else if standalone U (lit ''YES'') p \<and> \<not> standalone U (lit ''NO'') p then True
        else if standalone U (lit ''NO'') p \<and> \<not> standalone U (lit ''YES'') p then False
        else False)
   \<and> interpret_answer U (lit ''  yes  '') = True
   \<and> interpret_answer U (lit ''I think the answer is NO.'') = False
   \<and> interpret_answer U (lit ''yes... or no?'') = False"
proof -
  have w: "u_isword U 89" "u_isword U 83" "u_isword U 78" "u_isword U 79"
    using assms by (simp_all add: conform_isword ascii_isword_def ascii_isalpha_def)
  have y: "re_search_token U (lit ''YES'') None s = standalone U (lit ''YES'') s" for s
    by (rule search_standalone) (simp_all add: lit_def w)
  have n: "re_search_token U (lit ''NO'') None s = standalone U (lit ''NO'') s" for s
    by (rule search_standalone) (simp_all add: lit_def w)
  have tiers: "interpret_answer U r =
     (let p = py_upper U (py_strip U r) in
        if p = lit ''YES'' then True
        else if p = lit ''NO'' then False
        else if standalone U (lit ''YES'') p \<and> \<not> standalone U (lit ''NO'') p then True
        else if standalone U (lit ''NO'') p \<and> \<not> standalone U (lit ''YES'') p then False
        else False)"
    unfolding interpret_answer_def Let_def y n by (rule refl)
  from tiers interpret_scenarios [OF assms] show ?thesis by blast
qed

theorem interpret_answer_tiers_witness:
  "ascii_conform ascii_tables
   \<and> py_upper ascii_tables (py_strip ascii_tables (lit ''Sure: yes!'')) = lit ''SURE: YES!''
   \<and> standalone ascii_tables (lit ''YES'') (lit ''SURE: YES!'')
   \<and> \<not> standalone ascii_tables (lit ''NO'') (lit ''SURE: YES!'')
   \<and> interpret_answer ascii_tables (lit ''Sure: yes!'') = True
   \<and> interpret_answer ascii_tables (lit ''  yes  '') = True"
proof -
  note t = interpret_answer_tiers [OF ascii_tables_conform, of "lit ''Sure: yes!''"]
  have p: "py_upper ascii_tables (py_strip ascii_tables (lit ''Sure: yes!'')) = lit ''SURE: YES!''"
    by code_simp
  have i: "interpret_answer ascii_tables (lit ''Sure: yes!'') = True"
    by code_simp
  have ne: "lit ''SURE: YES!'' \<noteq> lit ''YES''" "lit ''SURE: YES!'' \<noteq> lit ''NO''"
    by (simp_all add: lit_def)
  from t i have "standalone ascii_tables (lit ''YES'') (lit ''SURE: YES!'') \<and>
                 \<not> standalone ascii_tables (lit ''NO'') (lit ''SURE: YES!'')"
    unfolding p Let_def using ne by (simp split: if_splits)
  with t p i ascii_tables_conform show ?thesis by blast
qed

text \<open>
  C6 (as amended). For every raw message record, the body of the extracted content is
  built from the joined text of the candidates with every run of whitespace collapsed
  to one space and trimmed. For a limit that is not negative
  (\<^verbatim>\<open>max_body_length_for_llm\<close>, 1000 when the key is absent) the body is that text cut to
  the limit, with the marker \<^verbatim>\<open>...\<close> appended exactly when the collapsed text is
  strictly longer than the limit, and the collapsed text itself otherwise. For a
  negative limit \<open>n\<close> the body is the collapsed text without its last \<open>- n\<close> code
  points, always followed by the marker. (The space must be whitespace in the tables.)
\<close>

theorem body_collapsed_and_capped:
  assumes "u_isspace U 32"
  shows "body (get_email_content U cfg lib md) =
     (let collapsed = py_strip U (collapse_runs U (joined_body_text U lib (payload md)));
          n = max_len_for_llm cfg
      in if 0 \<le> n then
           (if n < int (length collapsed) then take (nat n) collapsed @ lit ''...'' else collapsed)
         else take (length collapsed - nat (- n)) collapsed @ lit ''...'')"
proof -
  let ?c = "py_strip U (collapse_runs U (joined_body_text U lib (payload md)))"
  have s: "py_strip U (body_text_content U lib (payload md)) = ?c"
    by (simp add: body_text_content_eq [OF assms] py_strip_idem)
  show ?thesis
    unfolding body_of_content s Let_def
    by (simp add: py_slice_to_def)
qed

theorem body_collapsed_and_capped_witness:
  "u_isspace ascii_tables 32 \<and>
   joined_body_text ascii_tables (stdlib ascii_tables) (payload dear_record) =
     [32, 32] @ lit ''Dear   customer,'' @ [10, 9] @ lit ''pay now  '' \<and>
   body (get_email_content ascii_tables capped_config (stdlib ascii_tables) dear_record) =
     lit ''Dear cus...'' \<and>
   body (get_email_content ascii_tables default_config (stdlib ascii_tables) dear_record) =
     lit ''Dear customer, pay now''"
proof -
  have h: "u_isspace ascii_tables 32" by code_simp
  have j: "joined_body_text ascii_tables (stdlib ascii_tables) (payload dear_record) =
     [32, 32] @ lit ''Dear   customer,'' @ [10, 9] @ lit ''pay now  ''"
    by code_simp
  have e: "(let collapsed = py_strip ascii_tables (collapse_runs ascii_tables
                 (joined_body_text ascii_tables (stdlib ascii_tables) (payload dear_record)));
          n = max_len_for_llm capped_config
      in if 0 \<le> n then
           (if n < int (length collapsed) then take (nat n) collapsed @ lit ''...'' else collapsed)
         else take (length collapsed - nat (- n)) collapsed @ lit ''...'') = lit ''Dear cus...''"
    by code_simp
  have e': "(let collapsed = py_strip ascii_tables (collapse_runs ascii_tables
                 (joined_body_text ascii_tables (stdlib ascii_tables) (payload dear_record)));
          n = max_len_for_llm default_config
      in if 0 \<le> n then
           (if n < int (length collapsed) then take (nat n) collapsed @ lit ''...'' else collapsed)
         else take (length collapsed - nat (- n)) collapsed @ lit ''...'') =
       lit ''Dear customer, pay now''"
    by code_simp
  from body_collapsed_and_capped [OF h, of capped_config "stdlib ascii_tables" dear_record] e
  have b: "body (get_email_content ascii_tables capped_config (stdlib ascii_tables) dear_record) =
           lit ''Dear cus...''"
    by (rule trans)
  from body_collapsed_and_capped [OF h, of default_config "stdlib ascii_tables" dear_record] e'
  have b': "body (get_email_content ascii_tables default_config (stdlib ascii_tables) dear_record) =
            lit ''Dear customer, pay now''"
    by (rule trans)
  from h j b b' show ?thesis by (intro conjI)
qed

text \<open>
  At the limit \<open>-3\<close> the body is neither the collapsed text unchanged nor its first
  characters up to the limit followed by the marker: the collapsed text
  \<^verbatim>\<open>Dear customer, pay now\<close> loses its last three characters and gains the marker.
\<close>

theorem negative_limit_counterexample:
  "max_len_for_llm negative_config = - 3
   \<and> py_strip ascii_tables (collapse_runs ascii_tables
        (joined_body_text ascii_tables (stdlib ascii_tables) (payload dear_record))) =
       lit ''Dear customer, pay now''
   \<and> body (get_email_content ascii_tables negative_config (stdlib ascii_tables) dear_record) =
       lit ''Dear customer, pay ...''
   \<and> body (get_email_content ascii_tables negative_config (stdlib ascii_tables) dear_record) \<noteq>
       (let collapsed = py_strip ascii_tables (collapse_runs ascii_tables
              (joined_body_text ascii_tables (stdlib ascii_tables) (payload dear_record)));
            n = max_len_for_llm negative_config
        in if n < int (length collapsed) then take (nat n) collapsed @ lit ''...'' else collapsed)"
  by code_simp




end
